theory Spec2Isabelle
  imports Main "HOL-Library.Sublist" "HOL-Library.Multiset"
begin

section \<open>Persistence layer (main.py, lines 15--41)\<close>

text \<open>
  The two tables of main.py. A row is a record with the columns of the class; a table
  is the list of its rows in insertion order. Python's \<open>str\<close> is \<open>string\<close>, the
  \<open>Integer\<close> column \<open>points\<close> is an \<open>int\<close>, and a \<open>DateTime\<close> is a point on an
  integer time line. The primary key column \<open>id\<close> is written \<open>id_User\<close> and
  \<open>id_Referral\<close>, since \<open>id\<close> is the identity function of HOL. The second
  \<open>Referral\<close> class, in models.py, is imported nowhere and describes no table here.
\<close>

type_synonym datetime = int

record User =
  id_User :: nat
  tg_id :: string
  username :: string
  ref_link :: string

record Referral =
  id_Referral :: nat
  date :: datetime
  user_tg_id :: string
  friend_tg_id :: string
  points :: int

record database =
  users :: "User list"
  referrals :: "Referral list"

text \<open>\<open>Base.metadata.create_all\<close> on a fresh store: both tables exist and are empty.\<close>

definition create_all :: database where
  "create_all = \<lparr>users = [], referrals = []\<rparr>"

text \<open>
  The faults a request can end with: the \<open>HTTPException\<close> a handler raises, with its
  status code and detail, and the \<open>IntegrityError\<close> the store raises at \<open>commit\<close> when
  a declared constraint is violated (it is not caught, so the request ends with a
  server error and the transaction is rolled back).
\<close>

datatype error = HTTPException nat string | IntegrityError

text \<open>
  An auto-assigned primary key: one more than the largest key of the table, so it is
  fresh. Rows are never deleted, so no key is ever reused.
\<close>

definition next_id :: "nat list \<Rightarrow> nat" where
  "next_id ks = Suc (fold max ks 0)"

text \<open>
  \<open>db.add(user); db.commit(); db.refresh(user)\<close> for a \<open>User\<close>. The columns
  \<open>tg_id\<close> and \<open>ref_link\<close> are declared \<open>unique=True\<close>: the commit fails when
  the table already holds the value. On success the row, with its key, is appended.
\<close>

definition add_commit_User ::
  "database \<Rightarrow> string \<Rightarrow> string \<Rightarrow> string \<Rightarrow> error + (database \<times> User)" where
  "add_commit_User db t n l =
     (if t \<in> set (map tg_id (users db)) then Inl IntegrityError
      else if l \<in> set (map ref_link (users db)) then Inl IntegrityError
      else
        (let user = \<lparr>id_User = next_id (map id_User (users db)),
                     tg_id = t, username = n, ref_link = l\<rparr>
         in Inr (db\<lparr>users := users db @ [user]\<rparr>, user)))"

text \<open>
  \<open>db.add(new_referral); db.commit(); db.refresh(new_referral)\<close>. The column
  \<open>date\<close> has \<open>default=datetime.utcnow\<close>, called at the insert: \<open>now\<close> is the
  clock's reading then. Both \<open>user_tg_id\<close> and \<open>friend_tg_id\<close> are declared
  \<open>ForeignKey("users.tg_id")\<close>. Whether the store checks foreign keys is decided by
  \<open>DATABASE_URL\<close>, which is read from the environment and is not part of the
  repository: \<open>enforce_fk\<close> is that setting. A store that checks them fails the commit
  when either id has no \<open>User\<close> row. The column default of \<open>points\<close> (0) is used
  only for a row built without points; \<open>p\<close> is the value the row is built with.
\<close>

definition add_commit_Referral ::
  "bool \<Rightarrow> datetime \<Rightarrow> database \<Rightarrow> string \<Rightarrow> string \<Rightarrow> int \<Rightarrow> error + (database \<times> Referral)" where
  "add_commit_Referral enforce_fk now db u f p =
     (if enforce_fk \<and> \<not> (u \<in> set (map tg_id (users db)) \<and> f \<in> set (map tg_id (users db)))
      then Inl IntegrityError
      else
        (let new_referral = \<lparr>id_Referral = next_id (map id_Referral (referrals db)),
                             date = now, user_tg_id = u, friend_tg_id = f, points = p\<rparr>
         in Inr (db\<lparr>referrals := referrals db @ [new_referral]\<rparr>, new_referral)))"

section \<open>API layer (main.py, lines 84--183)\<close>

text \<open>
  A handler that can write returns the state after the request and its outcome; a
  handler that only reads returns its outcome. \<open>query.filter(P).first()\<close> is
  \<open>find P\<close> on the table and \<open>query.filter(P).all()\<close> is \<open>filter P\<close>.
\<close>

definition get_or_create_user ::
  "database \<Rightarrow> string \<Rightarrow> string \<Rightarrow> database \<times> (error + User)" where
  "get_or_create_user db t n =
     (case find (\<lambda>x. tg_id x = t) (users db) of
        Some user \<Rightarrow> (db, Inr user)
      | None \<Rightarrow>
          (case add_commit_User db t n (''https://t.me/tma123_bot?startapp='' @ t) of
             Inl e \<Rightarrow> (db, Inl e)
           | Inr (db', user) \<Rightarrow> (db', Inr user)))"

definition create_user ::
  "database \<Rightarrow> string \<Rightarrow> string \<Rightarrow> database \<times> (error + User)" where
  "create_user db t n = get_or_create_user db t n"

definition get_user :: "database \<Rightarrow> string \<Rightarrow> error + User" where
  "get_user db t =
     (case find (\<lambda>x. tg_id x = t) (users db) of
        None \<Rightarrow> Inl (HTTPException 404 ''User not found'')
      | Some user \<Rightarrow> Inr user)"

text \<open>
  The query for the friends (line 130) selects the \<open>User\<close> rows whose \<open>tg_id\<close> is
  \<open>IN\<close> the collected ids and has no \<open>ORDER BY\<close>: which row comes first is the
  store's choice (an index order, say), not the order of insertion. The answer is
  therefore the multiset of the selected rows: each row as often as it is selected, in
  no order.
\<close>

definition get_user_friends :: "database \<Rightarrow> string \<Rightarrow> User multiset" where
  "get_user_friends db t =
     (let rs = filter (\<lambda>r. user_tg_id r = t) (referrals db);
          friend_ids = map friend_tg_id rs
      in mset (filter (\<lambda>x. tg_id x \<in> set friend_ids) (users db)))"

definition create_referral ::
  "bool \<Rightarrow> datetime \<Rightarrow> database \<Rightarrow> string \<Rightarrow> string \<Rightarrow> database \<times> (error + Referral)" where
  "create_referral enforce_fk now db u f =
     (case find (\<lambda>r. user_tg_id r = u \<and> friend_tg_id r = f) (referrals db) of
        Some existing_referral \<Rightarrow> (db, Inl (HTTPException 400 ''Referral already exists''))
      | None \<Rightarrow>
          (case add_commit_Referral enforce_fk now db u f 100 of
             Inl e \<Rightarrow> (db, Inl e)
           | Inr (db', new_referral) \<Rightarrow> (db', Inr new_referral)))"

text \<open>The two handlers that answer with a one-key dictionary return it as a key-value list.\<close>

definition get_referral_link :: "database \<Rightarrow> string \<Rightarrow> error + (string \<times> string) list" where
  "get_referral_link db t =
     (case find (\<lambda>x. tg_id x = t) (users db) of
        None \<Rightarrow> Inl (HTTPException 404 ''User not found'')
      | Some user \<Rightarrow> Inr [(''referral_link'', ref_link user)])"

definition get_total_points :: "database \<Rightarrow> string \<Rightarrow> (string \<times> int) list" where
  "get_total_points db t =
     (let rs = filter (\<lambda>r. user_tg_id r = t) (referrals db);
          total_points = sum_list (map points rs)
      in [(''total_points'', total_points)])"

section \<open>The application: routes and runs\<close>

text \<open>
  The six routes of \<open>app\<close>, one constructor per decorator, and what a request is
  answered with. \<open>app\<close> dispatches a request arriving at time \<open>now\<close>; \<open>run\<close>
  serves requests one after another, each on the state the one before left.
\<close>

datatype request =
    POST_users string string
  | GET_users string
  | GET_users_friends string
  | POST_referrals string string
  | GET_users_referral_link string
  | GET_users_total_points string

datatype response =
    UserResponse User
  | UserResponses "User multiset"
  | ReferralResponse Referral
  | LinkResponse "(string \<times> string) list"
  | PointsResponse "(string \<times> int) list"
  | Fault error

definition answer :: "('a \<Rightarrow> response) \<Rightarrow> error + 'a \<Rightarrow> response" where
  "answer ok r = (case r of Inl e \<Rightarrow> Fault e | Inr v \<Rightarrow> ok v)"

fun app :: "bool \<Rightarrow> datetime \<Rightarrow> database \<Rightarrow> request \<Rightarrow> database \<times> response" where
  "app enforce_fk now db (POST_users t n) =
     (case create_user db t n of (db', r) \<Rightarrow> (db', answer UserResponse r))"
| "app enforce_fk now db (GET_users t) = (db, answer UserResponse (get_user db t))"
| "app enforce_fk now db (GET_users_friends t) = (db, UserResponses (get_user_friends db t))"
| "app enforce_fk now db (POST_referrals u f) =
     (case create_referral enforce_fk now db u f of (db', r) \<Rightarrow> (db', answer ReferralResponse r))"
| "app enforce_fk now db (GET_users_referral_link t) =
     (db, answer LinkResponse (get_referral_link db t))"
| "app enforce_fk now db (GET_users_total_points t) = (db, PointsResponse (get_total_points db t))"

fun run :: "bool \<Rightarrow> database \<Rightarrow> (datetime \<times> request) list \<Rightarrow> database" where
  "run enforce_fk db [] = db"
| "run enforce_fk db ((now, q) # qs) = run enforce_fk (fst (app enforce_fk now db q)) qs"

section \<open>Properties of a state\<close>

text \<open>
  What the schema and the handlers keep true of the tables: the declared uniqueness of
  \<open>User.tg_id\<close>, the primary keys, every stored link being the one generated from
  the row's \<open>tg_id\<close>, one \<open>Referral\<close> row per ordered pair, and 100 points on every
  \<open>Referral\<close> row.
\<close>

definition unique_tg_id :: "database \<Rightarrow> bool" where
  "unique_tg_id db = distinct (map tg_id (users db))"

definition primary_keys :: "database \<Rightarrow> bool" where
  "primary_keys db =
     (distinct (map id_User (users db)) \<and> distinct (map id_Referral (referrals db)))"

definition links_generated :: "database \<Rightarrow> bool" where
  "links_generated db =
     list_all (\<lambda>x. ref_link x = ''https://t.me/tma123_bot?startapp='' @ tg_id x) (users db)"

definition one_referral_per_pair :: "database \<Rightarrow> bool" where
  "one_referral_per_pair db =
     distinct (map (\<lambda>r. (user_tg_id r, friend_tg_id r)) (referrals db))"

definition points_100 :: "database \<Rightarrow> bool" where
  "points_100 db = list_all (\<lambda>r. points r = 100) (referrals db)"

section \<open>Example rows\<close>

text \<open>
  The rows the examples below are run on: three users as \<open>create_user\<close> stores them
  in an empty table, one after another.
\<close>

definition alice :: User where
  "alice = \<lparr>id_User = 1, tg_id = ''111'', username = ''alice'',
            ref_link = ''https://t.me/tma123_bot?startapp=111''\<rparr>"

definition bob :: User where
  "bob = \<lparr>id_User = 2, tg_id = ''222'', username = ''bob'',
          ref_link = ''https://t.me/tma123_bot?startapp=222''\<rparr>"

definition carol :: User where
  "carol = \<lparr>id_User = 3, tg_id = ''333'', username = ''carol'',
            ref_link = ''https://t.me/tma123_bot?startapp=333''\<rparr>"

section \<open>Facts about the store\<close>

lemma fold_max_ge: "(a::nat) \<le> fold max ks a"
proof (induction ks arbitrary: a)
  case Nil
  show ?case by simp
next
  case (Cons k ks)
  have "a \<le> max k a" by simp
  also have "\<dots> \<le> fold max ks (max k a)" by (rule Cons.IH)
  finally show ?case by simp
qed

lemma fold_max_mem: "k \<in> set ks \<Longrightarrow> (k::nat) \<le> fold max ks a"
proof (induction ks arbitrary: a)
  case Nil
  then show ?case by simp
next
  case (Cons x ks)
  show ?case
  proof (cases "k = x")
    case True
    have "k \<le> max x a" using True by simp
    also have "\<dots> \<le> fold max ks (max x a)" by (rule fold_max_ge)
    finally show ?thesis by simp
  next
    case False
    with Cons.prems have "k \<in> set ks" by simp
    then show ?thesis using Cons.IH by simp
  qed
qed

lemma next_id_fresh: "next_id ks \<notin> set ks"
proof
  assume "next_id ks \<in> set ks"
  then have "next_id ks \<le> fold max ks 0" by (rule fold_max_mem)
  then show False by (simp add: next_id_def)
qed

lemma find_append_Some: "find P xs = Some x \<Longrightarrow> find P (xs @ ys) = Some x"
  by (induction xs) (auto split: if_splits)

lemma find_append_None: "find P xs = None \<Longrightarrow> find P (xs @ ys) = find P ys"
  by (induction xs) (auto split: if_splits)

lemma find_prefix_Some: "prefix xs zs \<Longrightarrow> find P xs = Some x \<Longrightarrow> find P zs = Some x"
  by (auto simp: prefix_def find_append_Some)

lemma find_None_mem: "(find P xs = None) = (\<not> (\<exists>x\<in>set xs. P x))"
  by (auto simp: find_None_iff)

lemma find_Some_mem: "find P xs = Some x \<Longrightarrow> x \<in> set xs \<and> P x"
  by (induction xs) (auto split: if_splits)

lemma find_unique_key:
  "distinct (map k xs) \<Longrightarrow> x \<in> set xs \<Longrightarrow> find (\<lambda>y. k y = k x) xs = Some x"
proof (induction xs)
  case Nil
  then show ?case by simp
next
  case (Cons y ys)
  show ?case
  proof (cases "y = x")
    case True
    then show ?thesis by simp
  next
    case False
    with Cons.prems have mem: "x \<in> set ys" by simp
    with Cons.prems have "k y \<noteq> k x" by force
    moreover have "find (\<lambda>y. k y = k x) ys = Some x"
      using Cons.IH Cons.prems mem by simp
    ultimately show ?thesis by simp
  qed
qed

section \<open>What the two writing handlers do\<close>

lemma get_or_create_user_found:
  "find (\<lambda>x. tg_id x = t) (users db) = Some u \<Longrightarrow> get_or_create_user db t n = (db, Inr u)"
  by (simp add: get_or_create_user_def)

lemma get_or_create_user_new:
  assumes "find (\<lambda>x. tg_id x = t) (users db) = None"
    and "''https://t.me/tma123_bot?startapp='' @ t \<notin> set (map ref_link (users db))"
  shows "get_or_create_user db t n =
    (db\<lparr>users := users db @
        [\<lparr>id_User = next_id (map id_User (users db)), tg_id = t, username = n,
          ref_link = ''https://t.me/tma123_bot?startapp='' @ t\<rparr>]\<rparr>,
     Inr \<lparr>id_User = next_id (map id_User (users db)), tg_id = t, username = n,
          ref_link = ''https://t.me/tma123_bot?startapp='' @ t\<rparr>)"
proof -
  from assms(1) have "t \<notin> set (map tg_id (users db))"
    by (auto simp: find_None_iff)
  with assms show ?thesis
    by (simp add: get_or_create_user_def add_commit_User_def Let_def)
qed

lemma get_or_create_user_fault:
  assumes "find (\<lambda>x. tg_id x = t) (users db) = None"
    and "''https://t.me/tma123_bot?startapp='' @ t \<in> set (map ref_link (users db))"
  shows "get_or_create_user db t n = (db, Inl IntegrityError)"
  using assms by (simp add: get_or_create_user_def add_commit_User_def)

lemma get_or_create_user_Inr:
  assumes "get_or_create_user db t n = (db', Inr u)"
  shows "(find (\<lambda>x. tg_id x = t) (users db) = Some u \<and> db' = db) \<or>
         (find (\<lambda>x. tg_id x = t) (users db) = None \<and> db' = db\<lparr>users := users db @ [u]\<rparr> \<and>
          u = \<lparr>id_User = next_id (map id_User (users db)), tg_id = t, username = n,
               ref_link = ''https://t.me/tma123_bot?startapp='' @ t\<rparr>)"
proof (cases "find (\<lambda>x. tg_id x = t) (users db)")
  case (Some v)
  with assms show ?thesis by (simp add: get_or_create_user_def)
next
  case None
  show ?thesis
  proof (cases "''https://t.me/tma123_bot?startapp='' @ t \<in> set (map ref_link (users db))")
    case True
    with None assms show ?thesis by (simp add: get_or_create_user_fault)
  next
    case False
    from get_or_create_user_new [OF None False, of n] assms None show ?thesis by auto
  qed
qed

lemma get_or_create_user_Inr_find:
  assumes "get_or_create_user db t n = (db', Inr u)"
  shows "find (\<lambda>x. tg_id x = t) (users db') = Some u"
  using get_or_create_user_Inr [OF assms]
  by (auto simp: find_append_None)

lemma get_or_create_user_frame:
  "prefix (users db) (users (fst (get_or_create_user db t n))) \<and>
   referrals (fst (get_or_create_user db t n)) = referrals db"
proof (cases "find (\<lambda>x. tg_id x = t) (users db)")
  case (Some v)
  then show ?thesis by (simp add: get_or_create_user_def)
next
  case None
  then show ?thesis
    by (cases "''https://t.me/tma123_bot?startapp='' @ t \<in> set (map ref_link (users db))")
       (simp_all add: get_or_create_user_fault get_or_create_user_new)
qed


lemma create_referral_existing:
  "find (\<lambda>r. user_tg_id r = u \<and> friend_tg_id r = f) (referrals db) = Some x \<Longrightarrow>
   create_referral fk now db u f = (db, Inl (HTTPException 400 ''Referral already exists''))"
  by (simp add: create_referral_def)

lemma create_referral_new:
  assumes "find (\<lambda>r. user_tg_id r = u \<and> friend_tg_id r = f) (referrals db) = None"
    and "\<not> fk \<or> (u \<in> set (map tg_id (users db)) \<and> f \<in> set (map tg_id (users db)))"
  shows "create_referral fk now db u f =
    (db\<lparr>referrals := referrals db @
        [\<lparr>id_Referral = next_id (map id_Referral (referrals db)), date = now,
          user_tg_id = u, friend_tg_id = f, points = 100\<rparr>]\<rparr>,
     Inr \<lparr>id_Referral = next_id (map id_Referral (referrals db)), date = now,
          user_tg_id = u, friend_tg_id = f, points = 100\<rparr>)"
  using assms by (auto simp: create_referral_def add_commit_Referral_def Let_def)

lemma create_referral_fault:
  assumes "find (\<lambda>r. user_tg_id r = u \<and> friend_tg_id r = f) (referrals db) = None"
    and "fk" and "\<not> (u \<in> set (map tg_id (users db)) \<and> f \<in> set (map tg_id (users db)))"
  shows "create_referral fk now db u f = (db, Inl IntegrityError)"
  using assms by (auto simp: create_referral_def add_commit_Referral_def)

lemma create_referral_Inr:
  assumes "create_referral fk now db u f = (db', Inr r)"
  shows "find (\<lambda>r. user_tg_id r = u \<and> friend_tg_id r = f) (referrals db) = None \<and>
         (\<not> fk \<or> (u \<in> set (map tg_id (users db)) \<and> f \<in> set (map tg_id (users db)))) \<and>
         db' = db\<lparr>referrals := referrals db @ [r]\<rparr> \<and>
         r = \<lparr>id_Referral = next_id (map id_Referral (referrals db)), date = now,
              user_tg_id = u, friend_tg_id = f, points = 100\<rparr>"
proof (cases "find (\<lambda>r. user_tg_id r = u \<and> friend_tg_id r = f) (referrals db)")
  case (Some x)
  with assms show ?thesis by (simp add: create_referral_existing)
next
  case None
  show ?thesis
  proof (cases "\<not> fk \<or> (u \<in> set (map tg_id (users db)) \<and> f \<in> set (map tg_id (users db)))")
    case True
    from create_referral_new [OF None True, of now] assms None True show ?thesis by auto
  next
    case False
    then have "create_referral fk now db u f = (db, Inl IntegrityError)"
      using None by (intro create_referral_fault) auto
    with assms show ?thesis by simp
  qed
qed

lemma create_referral_frame:
  "users (fst (create_referral fk now db u f)) = users db \<and>
   prefix (referrals db) (referrals (fst (create_referral fk now db u f)))"
proof (cases "find (\<lambda>r. user_tg_id r = u \<and> friend_tg_id r = f) (referrals db)")
  case (Some x)
  then show ?thesis by (simp add: create_referral_existing)
next
  case None
  show ?thesis
  proof (cases "\<not> fk \<or> (u \<in> set (map tg_id (users db)) \<and> f \<in> set (map tg_id (users db)))")
    case True
    from create_referral_new [OF None True, of now] show ?thesis by simp
  next
    case False
    then have "create_referral fk now db u f = (db, Inl IntegrityError)"
      using None by (intro create_referral_fault) auto
    then show ?thesis by simp
  qed
qed

lemma app_frame:
  "prefix (users db) (users (fst (app fk now db q))) \<and>
   prefix (referrals db) (referrals (fst (app fk now db q)))"
proof (cases q)
  case (POST_users t n)
  with get_or_create_user_frame [of db t n] show ?thesis
    by (cases "get_or_create_user db t n") (simp add: create_user_def)
next
  case (POST_referrals u f)
  with create_referral_frame [of fk now db u f] show ?thesis
    by (cases "create_referral fk now db u f") simp
qed simp_all

lemma run_frame:
  "prefix (users db) (users (run fk db qs)) \<and> prefix (referrals db) (referrals (run fk db qs))"
proof (induction qs arbitrary: db)
  case Nil
  show ?case by simp
next
  case (Cons a qs)
  obtain now q where a: "a = (now, q)" by (cases a)
  from app_frame [of db fk now q] Cons.IH [of "fst (app fk now db q)"]
  show ?case unfolding a by (auto intro: prefix_order.trans)
qed

section \<open>Properties kept by every request\<close>

lemma get_or_create_user_state:
  "fst (get_or_create_user db t n) = db \<or>
   (t \<notin> set (map tg_id (users db)) \<and>
    fst (get_or_create_user db t n) =
      db\<lparr>users := users db @
        [\<lparr>id_User = next_id (map id_User (users db)), tg_id = t, username = n,
          ref_link = ''https://t.me/tma123_bot?startapp='' @ t\<rparr>]\<rparr>)"
proof (cases "find (\<lambda>x. tg_id x = t) (users db)")
  case (Some v)
  then show ?thesis by (simp add: get_or_create_user_found)
next
  case None
  then have absent: "t \<notin> set (map tg_id (users db))" by (auto simp: find_None_iff)
  show ?thesis
  proof (cases "''https://t.me/tma123_bot?startapp='' @ t \<in> set (map ref_link (users db))")
    case True
    with None show ?thesis by (simp add: get_or_create_user_fault)
  next
    case False
    from get_or_create_user_new [OF None False, of n] absent show ?thesis by simp
  qed
qed

lemma create_referral_state:
  "fst (create_referral fk now db u f) = db \<or>
   ((u, f) \<notin> set (map (\<lambda>r. (user_tg_id r, friend_tg_id r)) (referrals db)) \<and>
    fst (create_referral fk now db u f) =
      db\<lparr>referrals := referrals db @
        [\<lparr>id_Referral = next_id (map id_Referral (referrals db)), date = now,
          user_tg_id = u, friend_tg_id = f, points = 100\<rparr>]\<rparr>)"
proof (cases "find (\<lambda>r. user_tg_id r = u \<and> friend_tg_id r = f) (referrals db)")
  case (Some x)
  then show ?thesis by (simp add: create_referral_existing)
next
  case None
  then have absent: "(u, f) \<notin> set (map (\<lambda>r. (user_tg_id r, friend_tg_id r)) (referrals db))"
    by (auto simp: find_None_iff)
  show ?thesis
  proof (cases "\<not> fk \<or> (u \<in> set (map tg_id (users db)) \<and> f \<in> set (map tg_id (users db)))")
    case True
    from create_referral_new [OF None True, of now] absent show ?thesis by simp
  next
    case False
    then have "create_referral fk now db u f = (db, Inl IntegrityError)"
      using None by (intro create_referral_fault) auto
    then show ?thesis by simp
  qed
qed

lemma app_state:
  "fst (app fk now db q) = db \<or>
   (\<exists>t n. t \<notin> set (map tg_id (users db)) \<and>
      fst (app fk now db q) =
        db\<lparr>users := users db @
          [\<lparr>id_User = next_id (map id_User (users db)), tg_id = t, username = n,
            ref_link = ''https://t.me/tma123_bot?startapp='' @ t\<rparr>]\<rparr>) \<or>
   (\<exists>u f. (u, f) \<notin> set (map (\<lambda>r. (user_tg_id r, friend_tg_id r)) (referrals db)) \<and>
      fst (app fk now db q) =
        db\<lparr>referrals := referrals db @
          [\<lparr>id_Referral = next_id (map id_Referral (referrals db)), date = now,
            user_tg_id = u, friend_tg_id = f, points = 100\<rparr>]\<rparr>)"
proof (cases q)
  case (POST_users t n)
  have "fst (app fk now db q) = fst (get_or_create_user db t n)"
    unfolding POST_users by (cases "get_or_create_user db t n") (simp add: create_user_def)
  with get_or_create_user_state [of db t n] show ?thesis by auto
next
  case (POST_referrals u f)
  have "fst (app fk now db q) = fst (create_referral fk now db u f)"
    unfolding POST_referrals by (cases "create_referral fk now db u f") simp
  with create_referral_state [of fk now db u f] show ?thesis by auto
qed simp_all

lemma run_invariant:
  assumes step: "\<And>db now q. P db \<Longrightarrow> P (fst (app fk now db q))"
    and init: "P db"
  shows "P (run fk db qs)"
  using init
proof (induction qs arbitrary: db)
  case Nil
  then show ?case by simp
next
  case (Cons a qs)
  obtain now q where a: "a = (now, q)" by (cases a)
  from Cons.prems have "P (fst (app fk now db q))" by (rule step)
  then have "P (run fk (fst (app fk now db q)) qs)" by (rule Cons.IH)
  then show ?case by (simp add: a)
qed

lemma app_unique_tg_id: "unique_tg_id db \<Longrightarrow> unique_tg_id (fst (app fk now db q))"
  using app_state [of fk now db q] by (auto simp: unique_tg_id_def)

lemma app_primary_keys: "primary_keys db \<Longrightarrow> primary_keys (fst (app fk now db q))"
  using app_state [of fk now db q] next_id_fresh [of "map id_User (users db)"]
    next_id_fresh [of "map id_Referral (referrals db)"]
  by (auto simp: primary_keys_def)

lemma app_links_generated: "links_generated db \<Longrightarrow> links_generated (fst (app fk now db q))"
  using app_state [of fk now db q] by (auto simp: links_generated_def)

lemma app_one_referral_per_pair:
  "one_referral_per_pair db \<Longrightarrow> one_referral_per_pair (fst (app fk now db q))"
  using app_state [of fk now db q] by (auto simp: one_referral_per_pair_def)

lemma app_points_100: "points_100 db \<Longrightarrow> points_100 (fst (app fk now db q))"
  using app_state [of fk now db q] by (auto simp: points_100_def)

lemma run_unique_tg_id: "unique_tg_id db \<Longrightarrow> unique_tg_id (run fk db qs)"
  by (rule run_invariant [where P = unique_tg_id]) (rule app_unique_tg_id)

lemma run_primary_keys: "primary_keys db \<Longrightarrow> primary_keys (run fk db qs)"
  by (rule run_invariant [where P = primary_keys]) (rule app_primary_keys)

lemma run_links_generated: "links_generated db \<Longrightarrow> links_generated (run fk db qs)"
  by (rule run_invariant [where P = links_generated]) (rule app_links_generated)

lemma run_one_referral_per_pair:
  "one_referral_per_pair db \<Longrightarrow> one_referral_per_pair (run fk db qs)"
  by (rule run_invariant [where P = one_referral_per_pair]) (rule app_one_referral_per_pair)

lemma run_points_100: "points_100 db \<Longrightarrow> points_100 (run fk db qs)"
  by (rule run_invariant [where P = points_100]) (rule app_points_100)

lemma create_all_properties:
  "unique_tg_id create_all" "primary_keys create_all" "links_generated create_all"
  "one_referral_per_pair create_all" "points_100 create_all"
  by (simp_all add: create_all_def unique_tg_id_def primary_keys_def links_generated_def
      one_referral_per_pair_def points_100_def)

lemma links_generated_fresh:
  assumes "links_generated db" and "find (\<lambda>x. tg_id x = t) (users db) = None"
  shows "''https://t.me/tma123_bot?startapp='' @ t \<notin> set (map ref_link (users db))"
proof
  assume "''https://t.me/tma123_bot?startapp='' @ t \<in> set (map ref_link (users db))"
  then obtain x where x: "x \<in> set (users db)"
    and l: "ref_link x = ''https://t.me/tma123_bot?startapp='' @ t" by auto
  from assms(1) x have "ref_link x = ''https://t.me/tma123_bot?startapp='' @ tg_id x"
    by (simp add: links_generated_def list_all_iff)
  with l have "tg_id x = t" by simp
  with x assms(2) show False by (auto simp: find_None_iff)
qed

lemma distinct_key_count:
  "distinct (map k xs) \<Longrightarrow> x \<in> set xs \<Longrightarrow> length (filter (\<lambda>y. k y = k x) xs) = 1"
proof (induction xs)
  case Nil
  then show ?case by simp
next
  case (Cons y ys)
  show ?case
  proof (cases "y = x")
    case True
    with Cons.prems have out: "k x \<notin> k ` set ys" by simp
    have "k z \<noteq> k x" if "z \<in> set ys" for z
      using that out by (metis imageI)
    then have "filter (\<lambda>y. k y = k x) ys = []" by (simp add: filter_empty_conv)
    with True show ?thesis by simp
  next
    case False
    with Cons.prems have mem: "x \<in> set ys" by simp
    with Cons.prems have "k y \<noteq> k x" by force
    with Cons.IH Cons.prems mem show ?thesis by simp
  qed
qed

lemma get_or_create_user_unique_tg_id:
  "unique_tg_id db \<Longrightarrow> unique_tg_id (fst (get_or_create_user db t n))"
  using get_or_create_user_state [of db t n] by (auto simp: unique_tg_id_def)

section \<open>C1: creating a user twice\<close>

text \<open>
  Claim C1. Once a call of \<open>create_user\<close> for \<open>tg_id\<close> \<open>t\<close> has returned a row
  \<open>u\<close>, a second call with \<open>t\<close> (with any username) returns the same row \<open>u\<close>,
  hence the same \<open>ref_link\<close>, raises no error and leaves the whole state as it was,
  so no second row is created. The same holds after any further requests have been
  served in between. When \<open>tg_id\<close> was unique before the first call, exactly one row
  with \<open>tg_id\<close> \<open>t\<close> exists from then on; \<open>tg_id\<close> is unique in every state
  reached from the empty tables.
\<close>

theorem create_user_twice:
  assumes first: "create_user db t n = (db1, Inr u)"
  shows "tg_id u = t \<and>
         create_user db1 t n' = (db1, Inr u) \<and>
         create_user (run fk db1 qs) t n' = (run fk db1 qs, Inr u) \<and>
         (unique_tg_id db \<longrightarrow> length (filter (\<lambda>x. tg_id x = t) (users (run fk db1 qs))) = 1) \<and>
         unique_tg_id (run fk create_all qs)"
proof -
  from first have g: "get_or_create_user db t n = (db1, Inr u)"
    by (simp add: create_user_def)
  have found: "find (\<lambda>x. tg_id x = t) (users db1) = Some u"
    using g by (rule get_or_create_user_Inr_find)
  then have key: "tg_id u = t" and mem: "u \<in> set (users db1)"
    using find_Some_mem [of "\<lambda>x. tg_id x = t" "users db1" u] by simp_all
  have again: "create_user db1 t n' = (db1, Inr u)"
    using found by (simp add: create_user_def get_or_create_user_found)
  have pre: "prefix (users db1) (users (run fk db1 qs))"
    using run_frame [of db1 fk qs] by simp
  then have later: "find (\<lambda>x. tg_id x = t) (users (run fk db1 qs)) = Some u"
    using found by (rule find_prefix_Some)
  then have again_later: "create_user (run fk db1 qs) t n' = (run fk db1 qs, Inr u)"
    by (simp add: create_user_def get_or_create_user_found)
  have one: "length (filter (\<lambda>x. tg_id x = t) (users (run fk db1 qs))) = 1"
    if uniq: "unique_tg_id db"
  proof -
    have "unique_tg_id db1"
      using get_or_create_user_unique_tg_id [OF uniq, of t n] g by simp
    then have "unique_tg_id (run fk db1 qs)" by (rule run_unique_tg_id)
    then have d: "distinct (map tg_id (users (run fk db1 qs)))"
      by (simp add: unique_tg_id_def)
    have "u \<in> set (users (run fk db1 qs))"
      using later find_Some_mem [of "\<lambda>x. tg_id x = t" "users (run fk db1 qs)" u] by simp
    with d have "length (filter (\<lambda>x. tg_id x = tg_id u) (users (run fk db1 qs))) = 1"
      by (rule distinct_key_count)
    then show ?thesis by (simp add: key)
  qed
  have reach: "unique_tg_id (run fk create_all qs)"
    by (rule run_unique_tg_id) (rule create_all_properties)
  from key again again_later one reach show ?thesis by simp
qed

text \<open>The theorem at the spec's example user, with two more requests in between.\<close>

theorem create_user_twice_witness:
  "create_user create_all ''111'' ''alice'' =
     (\<lparr>users = [\<lparr>id_User = 1, tg_id = ''111'', username = ''alice'',
                  ref_link = ''https://t.me/tma123_bot?startapp=111''\<rparr>], referrals = []\<rparr>,
      Inr \<lparr>id_User = 1, tg_id = ''111'', username = ''alice'',
           ref_link = ''https://t.me/tma123_bot?startapp=111''\<rparr>) \<and>
   unique_tg_id create_all \<and>
   create_user
     \<lparr>users = [\<lparr>id_User = 1, tg_id = ''111'', username = ''alice'',
                 ref_link = ''https://t.me/tma123_bot?startapp=111''\<rparr>], referrals = []\<rparr>
     ''111'' ''eve'' =
     (\<lparr>users = [\<lparr>id_User = 1, tg_id = ''111'', username = ''alice'',
                  ref_link = ''https://t.me/tma123_bot?startapp=111''\<rparr>], referrals = []\<rparr>,
      Inr \<lparr>id_User = 1, tg_id = ''111'', username = ''alice'',
           ref_link = ''https://t.me/tma123_bot?startapp=111''\<rparr>) \<and>
   length (filter (\<lambda>x. tg_id x = ''111'')
     (users (run False
       \<lparr>users = [\<lparr>id_User = 1, tg_id = ''111'', username = ''alice'',
                   ref_link = ''https://t.me/tma123_bot?startapp=111''\<rparr>], referrals = []\<rparr>
       [(5, POST_users ''222'' ''bob''), (6, POST_users ''111'' ''eve'')]))) = 1"
proof -
  have first: "create_user create_all ''111'' ''alice'' =
     (\<lparr>users = [\<lparr>id_User = 1, tg_id = ''111'', username = ''alice'',
                  ref_link = ''https://t.me/tma123_bot?startapp=111''\<rparr>], referrals = []\<rparr>,
      Inr \<lparr>id_User = 1, tg_id = ''111'', username = ''alice'',
           ref_link = ''https://t.me/tma123_bot?startapp=111''\<rparr>)"
    by (simp add: create_user_def get_or_create_user_def add_commit_User_def create_all_def
        next_id_def Let_def)
  have uniq: "unique_tg_id create_all"
    by (simp add: unique_tg_id_def create_all_def)
  from create_user_twice [OF first, of "''eve''" False
      "[(5, POST_users ''222'' ''bob''), (6, POST_users ''111'' ''eve'')]"] first uniq
  show ?thesis by simp
qed

section \<open>C5: the generated referral link\<close>

text \<open>
  Claim C5. The row \<open>create_user\<close> stores for a \<open>tg_id\<close> \<open>t\<close> that had no row has
  the link \<open>https://t.me/tma123_bot?startapp=\<close> followed by \<open>t\<close>, and is appended
  to the table with the given \<open>tg_id\<close> and username. Where every stored link is the
  generated one, such a call does store the row: the \<open>unique\<close> constraint on
  \<open>ref_link\<close> cannot fail. Every state reached from the empty tables has only
  generated links, so there the link is a function of \<open>tg_id\<close>. The spec's example:
  \<open>tg_id\<close> \<open>111\<close> gets the link ending in \<open>startapp=111\<close>.
\<close>

theorem create_user_ref_link:
  "(find (\<lambda>x. tg_id x = t) (users db) = None \<and> create_user db t n = (db', Inr u) \<longrightarrow>
      ref_link u = ''https://t.me/tma123_bot?startapp='' @ t \<and> tg_id u = t \<and>
      username u = n \<and> users db' = users db @ [u]) \<and>
   (find (\<lambda>x. tg_id x = t) (users db) = None \<and> links_generated db \<longrightarrow>
      (\<exists>v. create_user db t n = (db\<lparr>users := users db @ [v]\<rparr>, Inr v) \<and>
           ref_link v = ''https://t.me/tma123_bot?startapp='' @ t)) \<and>
   links_generated (run fk create_all qs) \<and>
   snd (create_user create_all ''111'' ''alice'') =
     Inr \<lparr>id_User = 1, tg_id = ''111'', username = ''alice'',
          ref_link = ''https://t.me/tma123_bot?startapp=111''\<rparr>"
proof -
  have made: "ref_link u = ''https://t.me/tma123_bot?startapp='' @ t \<and> tg_id u = t \<and>
      username u = n \<and> users db' = users db @ [u]"
    if absent: "find (\<lambda>x. tg_id x = t) (users db) = None"
      and res: "create_user db t n = (db', Inr u)"
  proof -
    from res have "get_or_create_user db t n = (db', Inr u)" by (simp add: create_user_def)
    from get_or_create_user_Inr [OF this] absent show ?thesis by auto
  qed
  have succeeds: "\<exists>v. create_user db t n = (db\<lparr>users := users db @ [v]\<rparr>, Inr v) \<and>
           ref_link v = ''https://t.me/tma123_bot?startapp='' @ t"
    if absent: "find (\<lambda>x. tg_id x = t) (users db) = None" and gen: "links_generated db"
  proof -
    have "''https://t.me/tma123_bot?startapp='' @ t \<notin> set (map ref_link (users db))"
      using gen absent by (rule links_generated_fresh)
    from get_or_create_user_new [OF absent this, of n] show ?thesis
      by (simp add: create_user_def)
  qed
  have reach: "links_generated (run fk create_all qs)"
    by (rule run_links_generated) (rule create_all_properties)
  have example: "snd (create_user create_all ''111'' ''alice'') =
     Inr \<lparr>id_User = 1, tg_id = ''111'', username = ''alice'',
          ref_link = ''https://t.me/tma123_bot?startapp=111''\<rparr>"
    by (simp add: create_user_def get_or_create_user_def add_commit_User_def create_all_def
        next_id_def Let_def)
  from made succeeds reach example show ?thesis by blast
qed

text \<open>The theorem at a second user, created after the first.\<close>

theorem create_user_ref_link_witness:
  "find (\<lambda>x. tg_id x = ''222'')
     (users \<lparr>users = [\<lparr>id_User = 1, tg_id = ''111'', username = ''alice'',
                 ref_link = ''https://t.me/tma123_bot?startapp=111''\<rparr>], referrals = []\<rparr>) = None \<and>
   links_generated
     \<lparr>users = [\<lparr>id_User = 1, tg_id = ''111'', username = ''alice'',
                 ref_link = ''https://t.me/tma123_bot?startapp=111''\<rparr>], referrals = []\<rparr> \<and>
   create_user
     \<lparr>users = [\<lparr>id_User = 1, tg_id = ''111'', username = ''alice'',
                 ref_link = ''https://t.me/tma123_bot?startapp=111''\<rparr>], referrals = []\<rparr>
     ''222'' ''bob'' =
     (\<lparr>users = [\<lparr>id_User = 1, tg_id = ''111'', username = ''alice'',
                  ref_link = ''https://t.me/tma123_bot?startapp=111''\<rparr>,
                \<lparr>id_User = 2, tg_id = ''222'', username = ''bob'',
                  ref_link = ''https://t.me/tma123_bot?startapp=222''\<rparr>], referrals = []\<rparr>,
      Inr \<lparr>id_User = 2, tg_id = ''222'', username = ''bob'',
           ref_link = ''https://t.me/tma123_bot?startapp=222''\<rparr>) \<and>
   ref_link \<lparr>id_User = 2, tg_id = ''222'', username = ''bob'',
           ref_link = ''https://t.me/tma123_bot?startapp=222''\<rparr> =
     ''https://t.me/tma123_bot?startapp='' @ ''222''"
proof -
  let ?db = "\<lparr>users = [\<lparr>id_User = 1, tg_id = ''111'', username = ''alice'',
                 ref_link = ''https://t.me/tma123_bot?startapp=111''\<rparr>], referrals = []\<rparr>"
  let ?u = "\<lparr>id_User = 2, tg_id = ''222'', username = ''bob'',
           ref_link = ''https://t.me/tma123_bot?startapp=222''\<rparr>"
  have absent: "find (\<lambda>x. tg_id x = ''222'') (users ?db) = None" by simp
  have gen: "links_generated ?db" by (simp add: links_generated_def)
  have res: "create_user ?db ''222'' ''bob'' = (?db\<lparr>users := users ?db @ [?u]\<rparr>, Inr ?u)"
    by (simp add: create_user_def get_or_create_user_def add_commit_User_def next_id_def Let_def)
  from create_user_ref_link [of "''222''" ?db "''bob''" "?db\<lparr>users := users ?db @ [?u]\<rparr>" ?u]
    absent gen res
  show ?thesis by simp
qed

section \<open>C6: NotFound\<close>

text \<open>
  Claim C6. \<open>get_user\<close> and \<open>get_referral_link\<close> each end with the 404
  \<open>HTTPException\<close> exactly when no \<open>User\<close> row has the \<open>tg_id\<close>. When one
  has, \<open>get_user\<close> returns a row with that \<open>tg_id\<close> and \<open>get_referral_link\<close>
  returns the stored \<open>ref_link\<close> of the same row; under the uniqueness of \<open>tg_id\<close>
  that row is the one row \<open>y\<close> with the \<open>tg_id\<close>.
\<close>

theorem get_user_not_found:
  "((get_user db t = Inl (HTTPException 404 ''User not found'')) =
      (\<not> (\<exists>x\<in>set (users db). tg_id x = t))) \<and>
   ((get_referral_link db t = Inl (HTTPException 404 ''User not found'')) =
      (\<not> (\<exists>x\<in>set (users db). tg_id x = t))) \<and>
   ((\<exists>x\<in>set (users db). tg_id x = t) \<longrightarrow>
      (\<exists>x\<in>set (users db). tg_id x = t \<and> get_user db t = Inr x \<and>
         get_referral_link db t = Inr [(''referral_link'', ref_link x)])) \<and>
   (unique_tg_id db \<and> y \<in> set (users db) \<longrightarrow>
      get_user db (tg_id y) = Inr y \<and>
      get_referral_link db (tg_id y) = Inr [(''referral_link'', ref_link y)])"
proof -
  have some: "\<exists>x\<in>set (users db). tg_id x = t \<and> find (\<lambda>x. tg_id x = t) (users db) = Some x"
    if "\<exists>x\<in>set (users db). tg_id x = t"
  proof (cases "find (\<lambda>x. tg_id x = t) (users db)")
    case None
    with that show ?thesis by (simp add: find_None_mem)
  next
    case (Some x)
    with find_Some_mem [OF Some] show ?thesis by auto
  qed
  have a: "(get_user db t = Inl (HTTPException 404 ''User not found'')) =
      (\<not> (\<exists>x\<in>set (users db). tg_id x = t))"
  proof (cases "find (\<lambda>x. tg_id x = t) (users db)")
    case None
    then have "\<not> (\<exists>x\<in>set (users db). tg_id x = t)" by (simp add: find_None_mem)
    with None show ?thesis by (simp add: get_user_def)
  next
    case (Some x)
    from find_Some_mem [OF Some] have "\<exists>x\<in>set (users db). tg_id x = t" by auto
    with Some show ?thesis by (simp add: get_user_def)
  qed
  have b: "(get_referral_link db t = Inl (HTTPException 404 ''User not found'')) =
      (\<not> (\<exists>x\<in>set (users db). tg_id x = t))"
  proof (cases "find (\<lambda>x. tg_id x = t) (users db)")
    case None
    then have "\<not> (\<exists>x\<in>set (users db). tg_id x = t)" by (simp add: find_None_mem)
    with None show ?thesis by (simp add: get_referral_link_def)
  next
    case (Some x)
    from find_Some_mem [OF Some] have "\<exists>x\<in>set (users db). tg_id x = t" by auto
    with Some show ?thesis by (simp add: get_referral_link_def)
  qed
  have c: "\<exists>x\<in>set (users db). tg_id x = t \<and> get_user db t = Inr x \<and>
         get_referral_link db t = Inr [(''referral_link'', ref_link x)]"
    if "\<exists>x\<in>set (users db). tg_id x = t"
    using some [OF that] by (auto simp: get_user_def get_referral_link_def)
  have d: "get_user db (tg_id y) = Inr y \<and>
      get_referral_link db (tg_id y) = Inr [(''referral_link'', ref_link y)]"
    if "unique_tg_id db" and "y \<in> set (users db)"
  proof -
    from that have "find (\<lambda>x. tg_id x = tg_id y) (users db) = Some y"
      by (simp add: unique_tg_id_def find_unique_key)
    then show ?thesis by (simp add: get_user_def get_referral_link_def)
  qed
  from a b c d show ?thesis by blast
qed

text \<open>The theorem at a table with one user, asked for that user and for an unknown one.\<close>

theorem get_user_not_found_witness:
  "unique_tg_id
     \<lparr>users = [\<lparr>id_User = 1, tg_id = ''111'', username = ''alice'',
                 ref_link = ''https://t.me/tma123_bot?startapp=111''\<rparr>], referrals = []\<rparr> \<and>
   \<lparr>id_User = 1, tg_id = ''111'', username = ''alice'',
     ref_link = ''https://t.me/tma123_bot?startapp=111''\<rparr>
     \<in> set (users \<lparr>users = [\<lparr>id_User = 1, tg_id = ''111'', username = ''alice'',
                 ref_link = ''https://t.me/tma123_bot?startapp=111''\<rparr>], referrals = []\<rparr>) \<and>
   get_user
     \<lparr>users = [\<lparr>id_User = 1, tg_id = ''111'', username = ''alice'',
                 ref_link = ''https://t.me/tma123_bot?startapp=111''\<rparr>], referrals = []\<rparr>
     ''111'' =
     Inr \<lparr>id_User = 1, tg_id = ''111'', username = ''alice'',
          ref_link = ''https://t.me/tma123_bot?startapp=111''\<rparr> \<and>
   get_referral_link
     \<lparr>users = [\<lparr>id_User = 1, tg_id = ''111'', username = ''alice'',
                 ref_link = ''https://t.me/tma123_bot?startapp=111''\<rparr>], referrals = []\<rparr>
     ''111'' = Inr [(''referral_link'', ''https://t.me/tma123_bot?startapp=111'')] \<and>
   get_referral_link
     \<lparr>users = [\<lparr>id_User = 1, tg_id = ''111'', username = ''alice'',
                 ref_link = ''https://t.me/tma123_bot?startapp=111''\<rparr>], referrals = []\<rparr>
     ''unknown'' = Inl (HTTPException 404 ''User not found'')"
proof -
  let ?u = "\<lparr>id_User = 1, tg_id = ''111'', username = ''alice'',
     ref_link = ''https://t.me/tma123_bot?startapp=111''\<rparr>"
  let ?db = "\<lparr>users = [?u], referrals = []\<rparr>"
  have uniq: "unique_tg_id ?db" by (simp add: unique_tg_id_def)
  have mem: "?u \<in> set (users ?db)" by simp
  have ex: "\<exists>x\<in>set (users ?db). tg_id x = ''111''" by simp
  have nex: "\<not> (\<exists>x\<in>set (users ?db). tg_id x = ''unknown'')" by simp
  from get_user_not_found [of ?db "''111''" ?u] get_user_not_found [of ?db "''unknown''" ?u]
    uniq mem ex nex
  show ?thesis by simp
qed

section \<open>C2: Conflict\<close>

text \<open>
  Claim C2. \<open>create_referral\<close> ends with the 400 \<open>HTTPException\<close> exactly when a
  \<open>Referral\<close> row with the same ordered pair exists, and then the state is the one
  before the call. After a referral from \<open>u\<close> to \<open>f\<close> has been created, the same
  pair is a conflict; the reversed pair, for two different ids and with no reversed row
  before, is created. So no state reached from the empty tables has two rows for one
  pair.
\<close>

theorem create_referral_conflict:
  "((snd (create_referral fk now db u f) = Inl (HTTPException 400 ''Referral already exists'')) =
      (\<exists>x\<in>set (referrals db). user_tg_id x = u \<and> friend_tg_id x = f)) \<and>
   ((\<exists>x\<in>set (referrals db). user_tg_id x = u \<and> friend_tg_id x = f) \<longrightarrow>
      create_referral fk now db u f =
        (db, Inl (HTTPException 400 ''Referral already exists''))) \<and>
   (create_referral fk now db u f = (db1, Inr r1) \<longrightarrow>
      create_referral fk now' db1 u f =
        (db1, Inl (HTTPException 400 ''Referral already exists''))) \<and>
   (create_referral fk now db u f = (db1, Inr r1) \<and> u \<noteq> f \<and>
    \<not> (\<exists>x\<in>set (referrals db). user_tg_id x = f \<and> friend_tg_id x = u) \<longrightarrow>
      (\<exists>r2. create_referral fk now' db1 f u = (db1\<lparr>referrals := referrals db1 @ [r2]\<rparr>, Inr r2) \<and>
            user_tg_id r2 = f \<and> friend_tg_id r2 = u \<and> points r2 = 100)) \<and>
   one_referral_per_pair (run fk create_all qs)"
proof -
  let ?dup = "\<lambda>a b d. \<exists>x\<in>set (referrals d). user_tg_id x = a \<and> friend_tg_id x = b"
  have conflict: "create_referral fk' t d a b =
        (d, Inl (HTTPException 400 ''Referral already exists''))"
    if "?dup a b d" for d a b fk' t
  proof (cases "find (\<lambda>r. user_tg_id r = a \<and> friend_tg_id r = b) (referrals d)")
    case None
    with that show ?thesis by (simp add: find_None_mem)
  next
    case (Some x)
    then show ?thesis by (rule create_referral_existing)
  qed
  have other: "snd (create_referral fk now db u f) \<noteq>
        Inl (HTTPException 400 ''Referral already exists'')"
    if no: "\<not> ?dup u f db"
  proof -
    from no have none: "find (\<lambda>r. user_tg_id r = u \<and> friend_tg_id r = f) (referrals db) = None"
      by (simp add: find_None_mem)
    show ?thesis
    proof (cases "\<not> fk \<or> (u \<in> set (map tg_id (users db)) \<and> f \<in> set (map tg_id (users db)))")
      case True
      from create_referral_new [OF none True, of now] show ?thesis by simp
    next
      case False
      then have "create_referral fk now db u f = (db, Inl IntegrityError)"
        using none by (intro create_referral_fault) auto
      then show ?thesis by simp
    qed
  qed
  have iff: "(snd (create_referral fk now db u f) =
        Inl (HTTPException 400 ''Referral already exists'')) = ?dup u f db"
  proof (cases "?dup u f db")
    case True
    from conflict [OF True, of fk now] True show ?thesis by simp
  next
    case False
    from other [OF False] False show ?thesis by simp
  qed
  have after: "?dup u f db1 \<and> users db1 = users db \<and> referrals db1 = referrals db @ [r1]"
    if "create_referral fk now db u f = (db1, Inr r1)"
    using create_referral_Inr [OF that] by auto
  have again: "create_referral fk now' db1 u f =
        (db1, Inl (HTTPException 400 ''Referral already exists''))"
    if "create_referral fk now db u f = (db1, Inr r1)"
  proof -
    from after [OF that] have "?dup u f db1" by (rule conjunct1)
    then show ?thesis by (rule conflict)
  qed
  have reversed: "\<exists>r2. create_referral fk now' db1 f u =
        (db1\<lparr>referrals := referrals db1 @ [r2]\<rparr>, Inr r2) \<and>
        user_tg_id r2 = f \<and> friend_tg_id r2 = u \<and> points r2 = 100"
    if res: "create_referral fk now db u f = (db1, Inr r1)" and ne: "u \<noteq> f"
      and no: "\<not> ?dup f u db"
  proof -
    note facts = create_referral_Inr [OF res]
    from facts have r1: "user_tg_id r1 = u" "friend_tg_id r1 = f" by auto
    from facts have db1: "referrals db1 = referrals db @ [r1]" "users db1 = users db" by auto
    have "\<not> ?dup f u db1" using no ne r1 db1 by auto
    then have none: "find (\<lambda>r. user_tg_id r = f \<and> friend_tg_id r = u) (referrals db1) = None"
      by (simp add: find_None_mem)
    have ok: "\<not> fk \<or> (f \<in> set (map tg_id (users db1)) \<and> u \<in> set (map tg_id (users db1)))"
      using facts db1 by auto
    from create_referral_new [OF none ok, of now'] show ?thesis by simp
  qed
  have reach: "one_referral_per_pair (run fk create_all qs)"
    by (rule run_one_referral_per_pair) (rule create_all_properties)
  from iff conflict [of db u f fk now] again reversed reach show ?thesis by blast
qed

text \<open>The theorem at two users and an empty referral table, on a store that checks foreign keys.\<close>

theorem create_referral_conflict_witness:
  "create_referral True 10 \<lparr>users = [alice, bob], referrals = []\<rparr> ''111'' ''222'' =
     (\<lparr>users = [alice, bob],
       referrals = [\<lparr>id_Referral = 1, date = 10, user_tg_id = ''111'',
                     friend_tg_id = ''222'', points = 100\<rparr>]\<rparr>,
      Inr \<lparr>id_Referral = 1, date = 10, user_tg_id = ''111'',
           friend_tg_id = ''222'', points = 100\<rparr>) \<and>
   ''111'' \<noteq> ''222'' \<and>
   \<not> (\<exists>x\<in>set (referrals \<lparr>users = [alice, bob], referrals = []\<rparr>).
        user_tg_id x = ''222'' \<and> friend_tg_id x = ''111'') \<and>
   create_referral True 20
     \<lparr>users = [alice, bob],
       referrals = [\<lparr>id_Referral = 1, date = 10, user_tg_id = ''111'',
                     friend_tg_id = ''222'', points = 100\<rparr>]\<rparr> ''111'' ''222'' =
     (\<lparr>users = [alice, bob],
       referrals = [\<lparr>id_Referral = 1, date = 10, user_tg_id = ''111'',
                     friend_tg_id = ''222'', points = 100\<rparr>]\<rparr>,
      Inl (HTTPException 400 ''Referral already exists'')) \<and>
   snd (create_referral True 20
     \<lparr>users = [alice, bob],
       referrals = [\<lparr>id_Referral = 1, date = 10, user_tg_id = ''111'',
                     friend_tg_id = ''222'', points = 100\<rparr>]\<rparr> ''222'' ''111'') =
     Inr \<lparr>id_Referral = 2, date = 20, user_tg_id = ''222'',
          friend_tg_id = ''111'', points = 100\<rparr>"
proof -
  let ?db = "\<lparr>users = [alice, bob], referrals = []\<rparr>"
  let ?r1 = "\<lparr>id_Referral = 1, date = 10, user_tg_id = ''111'',
                     friend_tg_id = ''222'', points = 100\<rparr>"
  let ?db1 = "\<lparr>users = [alice, bob], referrals = [?r1]\<rparr>"
  have first: "create_referral True 10 ?db ''111'' ''222'' = (?db1, Inr ?r1)"
    by (simp add: create_referral_def add_commit_Referral_def next_id_def Let_def
        alice_def bob_def)
  have ne: "''111'' \<noteq> ''222''" by simp
  have no: "\<not> (\<exists>x\<in>set (referrals ?db). user_tg_id x = ''222'' \<and> friend_tg_id x = ''111'')"
    by simp
  have rev: "snd (create_referral True 20 ?db1 ''222'' ''111'') =
     Inr \<lparr>id_Referral = 2, date = 20, user_tg_id = ''222'',
          friend_tg_id = ''111'', points = 100\<rparr>"
    by (simp add: create_referral_def add_commit_Referral_def next_id_def Let_def
        alice_def bob_def)
  from create_referral_conflict [of True 10 ?db "''111''" "''222''" ?db1 ?r1 20] first ne no rev
  show ?thesis by simp
qed

section \<open>C3: a created referral\<close>

text \<open>
  Claim C3 as stated fails in its condition of success: on a store that checks the
  declared foreign keys, with the user 111 stored and no user 222, no referral row for
  the pair (111, 222) exists, yet \<open>create_referral\<close> does not succeed. It ends with
  the store's \<open>IntegrityError\<close> and inserts no row.
\<close>

theorem create_referral_absent_friend_fails:
  "\<not> (\<exists>x\<in>set (referrals \<lparr>users = [alice], referrals = []\<rparr>).
        user_tg_id x = ''111'' \<and> friend_tg_id x = ''222'') \<and>
   create_referral True 10 \<lparr>users = [alice], referrals = []\<rparr> ''111'' ''222'' =
     (\<lparr>users = [alice], referrals = []\<rparr>, Inl IntegrityError) \<and>
   \<not> (\<exists>v. snd (create_referral True 10 \<lparr>users = [alice], referrals = []\<rparr> ''111'' ''222'') =
          Inr v)"
  by (simp add: create_referral_def add_commit_Referral_def alice_def)

text \<open>
  Claim C3, amended. A successful \<open>create_referral\<close> appends exactly one row to the
  referral table and leaves the user table alone; the row has 100 points, the time of
  the call as its date, the two ids of the request and a fresh key, and it is the row
  returned. The call succeeds when no row with the pair exists and, where the store
  checks foreign keys, both ids have a user row. Every referral row of a state reached
  from the empty tables has 100 points.
\<close>

theorem create_referral_success:
  "(create_referral fk now db u f = (db', Inr r) \<longrightarrow>
      referrals db' = referrals db @ [r] \<and> users db' = users db \<and>
      points r = 100 \<and> date r = now \<and> user_tg_id r = u \<and> friend_tg_id r = f \<and>
      id_Referral r \<notin> set (map id_Referral (referrals db))) \<and>
   (\<not> (\<exists>x\<in>set (referrals db). user_tg_id x = u \<and> friend_tg_id x = f) \<and>
    (fk \<longrightarrow> u \<in> set (map tg_id (users db)) \<and> f \<in> set (map tg_id (users db))) \<longrightarrow>
      (\<exists>v. create_referral fk now db u f = (db\<lparr>referrals := referrals db @ [v]\<rparr>, Inr v))) \<and>
   points_100 (run fk create_all qs)"
proof -
  have made: "referrals db' = referrals db @ [r] \<and> users db' = users db \<and>
      points r = 100 \<and> date r = now \<and> user_tg_id r = u \<and> friend_tg_id r = f \<and>
      id_Referral r \<notin> set (map id_Referral (referrals db))"
    if res: "create_referral fk now db u f = (db', Inr r)"
  proof -
    note facts = create_referral_Inr [OF res]
    from facts have key: "id_Referral r = next_id (map id_Referral (referrals db))" by auto
    have "id_Referral r \<notin> set (map id_Referral (referrals db))"
      unfolding key by (rule next_id_fresh)
    with facts show ?thesis by auto
  qed
  have succeeds: "\<exists>v. create_referral fk now db u f =
        (db\<lparr>referrals := referrals db @ [v]\<rparr>, Inr v)"
    if no: "\<not> (\<exists>x\<in>set (referrals db). user_tg_id x = u \<and> friend_tg_id x = f)"
      and ok: "fk \<longrightarrow> u \<in> set (map tg_id (users db)) \<and> f \<in> set (map tg_id (users db))"
  proof -
    from no have none: "find (\<lambda>r. user_tg_id r = u \<and> friend_tg_id r = f) (referrals db) = None"
      by (simp add: find_None_mem)
    from ok have "\<not> fk \<or> (u \<in> set (map tg_id (users db)) \<and> f \<in> set (map tg_id (users db)))"
      by blast
    from create_referral_new [OF none this, of now] show ?thesis by simp
  qed
  have reach: "points_100 (run fk create_all qs)"
    by (rule run_points_100) (rule create_all_properties)
  from made succeeds reach show ?thesis by blast
qed

text \<open>The theorem at two users and an empty referral table, on a store that checks foreign keys.\<close>

theorem create_referral_success_witness:
  "\<not> (\<exists>x\<in>set (referrals \<lparr>users = [alice, bob], referrals = []\<rparr>).
        user_tg_id x = ''111'' \<and> friend_tg_id x = ''222'') \<and>
   ''111'' \<in> set (map tg_id (users \<lparr>users = [alice, bob], referrals = []\<rparr>)) \<and>
   ''222'' \<in> set (map tg_id (users \<lparr>users = [alice, bob], referrals = []\<rparr>)) \<and>
   create_referral True 30 \<lparr>users = [alice, bob], referrals = []\<rparr> ''111'' ''222'' =
     (\<lparr>users = [alice, bob],
       referrals = [\<lparr>id_Referral = 1, date = 30, user_tg_id = ''111'',
                     friend_tg_id = ''222'', points = 100\<rparr>]\<rparr>,
      Inr \<lparr>id_Referral = 1, date = 30, user_tg_id = ''111'',
           friend_tg_id = ''222'', points = 100\<rparr>) \<and>
   points \<lparr>id_Referral = 1, date = 30, user_tg_id = ''111'',
           friend_tg_id = ''222'', points = 100\<rparr> = 100 \<and>
   date \<lparr>id_Referral = 1, date = 30, user_tg_id = ''111'',
           friend_tg_id = ''222'', points = 100\<rparr> = 30"
proof -
  let ?db = "\<lparr>users = [alice, bob], referrals = []\<rparr>"
  let ?r = "\<lparr>id_Referral = 1, date = 30, user_tg_id = ''111'',
                     friend_tg_id = ''222'', points = 100\<rparr>"
  let ?db' = "\<lparr>users = [alice, bob], referrals = [?r]\<rparr>"
  have no: "\<not> (\<exists>x\<in>set (referrals ?db). user_tg_id x = ''111'' \<and> friend_tg_id x = ''222'')"
    by simp
  have both: "''111'' \<in> set (map tg_id (users ?db))" "''222'' \<in> set (map tg_id (users ?db))"
    by (simp_all add: alice_def bob_def)
  have res: "create_referral True 30 ?db ''111'' ''222'' = (?db', Inr ?r)"
    by (simp add: create_referral_def add_commit_Referral_def next_id_def Let_def
        alice_def bob_def)
  from create_referral_success [of True 30 ?db "''111''" "''222''" ?db' ?r] no both res
  show ?thesis by simp
qed

section \<open>C10: referrals between ids without a user row\<close>

text \<open>
  Claim C10 as stated fails on a store that checks the declared foreign keys: with
  empty tables no referral row with the pair exists, yet the call ends with the
  store's \<open>IntegrityError\<close> and inserts nothing.
\<close>

theorem create_referral_missing_user_fails:
  "find (\<lambda>r. user_tg_id r = ''111'' \<and> friend_tg_id r = ''222'') (referrals create_all) = None \<and>
   create_referral True 10 create_all ''111'' ''222'' = (create_all, Inl IntegrityError)"
  by (simp add: create_referral_def add_commit_Referral_def create_all_def)

text \<open>
  Claim C10, amended. \<open>create_referral\<close> itself checks neither id and never ends
  with a 404. With no row for the pair: on a store that does not check foreign keys the
  call succeeds for every pair of strings, including ids without a user row and
  \<open>u = f\<close>; on a store that checks them it succeeds exactly when both ids have a user
  row, and ends with \<open>IntegrityError\<close>, the state unchanged, otherwise.
\<close>

theorem create_referral_no_existence_check:
  "(\<forall>msg. snd (create_referral fk now db u f) \<noteq> Inl (HTTPException 404 msg)) \<and>
   (\<not> (\<exists>x\<in>set (referrals db). user_tg_id x = u \<and> friend_tg_id x = f) \<longrightarrow>
      (\<exists>v. create_referral False now db u f = (db\<lparr>referrals := referrals db @ [v]\<rparr>, Inr v) \<and>
           user_tg_id v = u \<and> friend_tg_id v = f)) \<and>
   (\<not> (\<exists>x\<in>set (referrals db). user_tg_id x = u \<and> friend_tg_id x = f) \<longrightarrow>
      ((\<exists>v. snd (create_referral True now db u f) = Inr v) =
       (u \<in> set (map tg_id (users db)) \<and> f \<in> set (map tg_id (users db))))) \<and>
   (\<not> (\<exists>x\<in>set (referrals db). user_tg_id x = u \<and> friend_tg_id x = f) \<and>
    \<not> (u \<in> set (map tg_id (users db)) \<and> f \<in> set (map tg_id (users db))) \<longrightarrow>
      create_referral True now db u f = (db, Inl IntegrityError))"
proof -
  let ?no = "\<not> (\<exists>x\<in>set (referrals db). user_tg_id x = u \<and> friend_tg_id x = f)"
  let ?both = "u \<in> set (map tg_id (users db)) \<and> f \<in> set (map tg_id (users db))"
  have never404: "snd (create_referral fk now db u f) \<noteq> Inl (HTTPException 404 msg)" for msg
    by (simp add: create_referral_def add_commit_Referral_def Let_def split: option.splits)
  have none: "find (\<lambda>r. user_tg_id r = u \<and> friend_tg_id r = f) (referrals db) = None" if ?no
    using that by (simp add: find_None_mem)
  have lenient: "\<exists>v. create_referral False now db u f =
        (db\<lparr>referrals := referrals db @ [v]\<rparr>, Inr v) \<and> user_tg_id v = u \<and> friend_tg_id v = f"
    if ?no
  proof -
    have "\<not> False \<or> ?both" by simp
    from create_referral_new [OF none [OF that] this, of now] show ?thesis by simp
  qed
  have strict_ok: "\<exists>v. snd (create_referral True now db u f) = Inr v" if ?no and ?both
  proof -
    from that(2) have "\<not> True \<or> ?both" by simp
    from create_referral_new [OF none [OF that(1)] this, of now] show ?thesis by simp
  qed
  have strict_fail: "create_referral True now db u f = (db, Inl IntegrityError)"
    if ?no and "\<not> ?both"
    using none [OF that(1)] that(2) by (intro create_referral_fault) auto
  have strict: "(\<exists>v. snd (create_referral True now db u f) = Inr v) = ?both" if ?no
  proof (cases ?both)
    case True
    with strict_ok [OF that] show ?thesis by simp
  next
    case False
    with strict_fail [OF that] show ?thesis by simp
  qed
  from never404 lenient strict strict_fail show ?thesis by blast
qed

text \<open>The theorem at a self-referral of an id without a user row, on both kinds of store.\<close>

theorem create_referral_no_existence_check_witness:
  "\<not> (\<exists>x\<in>set (referrals create_all). user_tg_id x = ''111'' \<and> friend_tg_id x = ''111'') \<and>
   \<not> (''111'' \<in> set (map tg_id (users create_all)) \<and>
      ''111'' \<in> set (map tg_id (users create_all))) \<and>
   create_referral False 10 create_all ''111'' ''111'' =
     (create_all\<lparr>referrals := referrals create_all @
        [\<lparr>id_Referral = 1, date = 10, user_tg_id = ''111'', friend_tg_id = ''111'',
          points = 100\<rparr>]\<rparr>,
      Inr \<lparr>id_Referral = 1, date = 10, user_tg_id = ''111'', friend_tg_id = ''111'',
           points = 100\<rparr>) \<and>
   create_referral True 10 create_all ''111'' ''111'' = (create_all, Inl IntegrityError)"
proof -
  have no: "\<not> (\<exists>x\<in>set (referrals create_all). user_tg_id x = ''111'' \<and> friend_tg_id x = ''111'')"
    by (simp add: create_all_def)
  have absent: "\<not> (''111'' \<in> set (map tg_id (users create_all)) \<and>
      ''111'' \<in> set (map tg_id (users create_all)))"
    by (simp add: create_all_def)
  have res: "create_referral False 10 create_all ''111'' ''111'' =
     (create_all\<lparr>referrals := referrals create_all @
        [\<lparr>id_Referral = 1, date = 10, user_tg_id = ''111'', friend_tg_id = ''111'',
          points = 100\<rparr>]\<rparr>,
      Inr \<lparr>id_Referral = 1, date = 10, user_tg_id = ''111'', friend_tg_id = ''111'',
           points = 100\<rparr>)"
    by (simp add: create_referral_def add_commit_Referral_def next_id_def Let_def create_all_def)
  from create_referral_no_existence_check [of True 10 create_all "''111''" "''111''"] no absent res
  show ?thesis by simp
qed

section \<open>C4: total points\<close>

lemma sum_list_filter_if:
  "sum_list (map g (filter P xs)) = (\<Sum>x\<leftarrow>xs. if P x then g x else (0::int))"
  by (induction xs) simp_all

lemma sum_list_const_100:
  "list_all (\<lambda>r. points r = 100) xs \<Longrightarrow> sum_list (map points xs) = 100 * int (length xs)"
  by (induction xs) simp_all

lemma list_all_filter: "list_all Q xs \<Longrightarrow> list_all Q (filter P xs)"
  by (induction xs) simp_all

text \<open>
  Claim C4. \<open>get_total_points\<close> answers with the sum of \<open>points\<close> over the
  \<open>Referral\<close> rows whose \<open>user_tg_id\<close> is the id asked for (the same number as
  adding, row by row, the points of a matching row and 0 for any other), and with 0
  when there is no such row, whatever the user table holds. Where every row has 100
  points the total is 100 times the number of matching rows; after two referrals by
  \<open>a\<close>, who had none before, it is 200.
\<close>

theorem get_total_points_sum:
  "get_total_points db t =
     [(''total_points'', sum_list (map points (filter (\<lambda>r. user_tg_id r = t) (referrals db))))] \<and>
   get_total_points db t =
     [(''total_points'', (\<Sum>r\<leftarrow>referrals db. if user_tg_id r = t then points r else 0))] \<and>
   (\<not> (\<exists>r\<in>set (referrals db). user_tg_id r = t) \<longrightarrow>
      get_total_points db t = [(''total_points'', 0)]) \<and>
   (points_100 db \<longrightarrow>
      get_total_points db t =
        [(''total_points'',
          100 * int (length (filter (\<lambda>r. user_tg_id r = t) (referrals db))))]) \<and>
   (\<not> (\<exists>r\<in>set (referrals db). user_tg_id r = a) \<and>
    create_referral fk n1 db a b = (db1, Inr r1) \<and>
    create_referral fk n2 db1 a c = (db2, Inr r2) \<longrightarrow>
      get_total_points db2 a = [(''total_points'', 200)])"
proof -
  have plain: "get_total_points db t =
     [(''total_points'', sum_list (map points (filter (\<lambda>r. user_tg_id r = t) (referrals db))))]"
    by (simp add: get_total_points_def Let_def)
  have cond: "get_total_points db t =
     [(''total_points'', (\<Sum>r\<leftarrow>referrals db. if user_tg_id r = t then points r else 0))]"
    by (simp add: get_total_points_def Let_def sum_list_filter_if)
  have zero: "get_total_points db t = [(''total_points'', 0)]"
    if "\<not> (\<exists>r\<in>set (referrals db). user_tg_id r = t)"
  proof -
    from that have "filter (\<lambda>r. user_tg_id r = t) (referrals db) = []"
      by (simp add: filter_empty_conv)
    then show ?thesis by (simp add: get_total_points_def Let_def)
  qed
  have hundreds: "get_total_points db t =
        [(''total_points'',
          100 * int (length (filter (\<lambda>r. user_tg_id r = t) (referrals db))))]"
    if "points_100 db"
  proof -
    from that have "list_all (\<lambda>r. points r = 100) (filter (\<lambda>r. user_tg_id r = t) (referrals db))"
      unfolding points_100_def by (rule list_all_filter)
    then show ?thesis by (simp add: get_total_points_def Let_def sum_list_const_100)
  qed
  have two: "get_total_points db2 a = [(''total_points'', 200)]"
    if no: "\<not> (\<exists>r\<in>set (referrals db). user_tg_id r = a)"
      and first: "create_referral fk n1 db a b = (db1, Inr r1)"
      and second: "create_referral fk n2 db1 a c = (db2, Inr r2)"
  proof -
    note f1 = create_referral_Inr [OF first] and f2 = create_referral_Inr [OF second]
    from f1 f2 have rows: "referrals db2 = referrals db @ [r1, r2]" by auto
    from f1 have r1: "user_tg_id r1 = a" "points r1 = 100" by auto
    from f2 have r2: "user_tg_id r2 = a" "points r2 = 100" by auto
    from no have "filter (\<lambda>r. user_tg_id r = a) (referrals db) = []"
      by (simp add: filter_empty_conv)
    with rows r1 r2 show ?thesis by (simp add: get_total_points_def Let_def)
  qed
  from plain cond zero hundreds two show ?thesis by blast
qed

text \<open>The theorem at the empty tables and two referrals by user 111.\<close>

theorem get_total_points_sum_witness:
  "\<not> (\<exists>r\<in>set (referrals \<lparr>users = [], referrals = []\<rparr>). user_tg_id r = ''111'') \<and>
   points_100 \<lparr>users = [], referrals = []\<rparr> \<and>
   create_referral False 10 \<lparr>users = [], referrals = []\<rparr> ''111'' ''222'' =
     (\<lparr>users = [],
       referrals = [\<lparr>id_Referral = 1, date = 10, user_tg_id = ''111'',
                     friend_tg_id = ''222'', points = 100\<rparr>]\<rparr>,
      Inr \<lparr>id_Referral = 1, date = 10, user_tg_id = ''111'',
           friend_tg_id = ''222'', points = 100\<rparr>) \<and>
   create_referral False 20
     \<lparr>users = [],
       referrals = [\<lparr>id_Referral = 1, date = 10, user_tg_id = ''111'',
                     friend_tg_id = ''222'', points = 100\<rparr>]\<rparr> ''111'' ''333'' =
     (\<lparr>users = [],
       referrals = [\<lparr>id_Referral = 1, date = 10, user_tg_id = ''111'',
                     friend_tg_id = ''222'', points = 100\<rparr>,
                    \<lparr>id_Referral = 2, date = 20, user_tg_id = ''111'',
                     friend_tg_id = ''333'', points = 100\<rparr>]\<rparr>,
      Inr \<lparr>id_Referral = 2, date = 20, user_tg_id = ''111'',
           friend_tg_id = ''333'', points = 100\<rparr>) \<and>
   get_total_points \<lparr>users = [], referrals = []\<rparr> ''111'' = [(''total_points'', 0)] \<and>
   get_total_points
     \<lparr>users = [],
       referrals = [\<lparr>id_Referral = 1, date = 10, user_tg_id = ''111'',
                     friend_tg_id = ''222'', points = 100\<rparr>,
                    \<lparr>id_Referral = 2, date = 20, user_tg_id = ''111'',
                     friend_tg_id = ''333'', points = 100\<rparr>]\<rparr> ''111'' =
     [(''total_points'', 200)]"
proof -
  let ?db = "\<lparr>users = [], referrals = []\<rparr>"
  let ?r1 = "\<lparr>id_Referral = 1, date = 10, user_tg_id = ''111'',
                     friend_tg_id = ''222'', points = 100\<rparr>"
  let ?r2 = "\<lparr>id_Referral = 2, date = 20, user_tg_id = ''111'',
                     friend_tg_id = ''333'', points = 100\<rparr>"
  let ?db1 = "\<lparr>users = [], referrals = [?r1]\<rparr>"
  let ?db2 = "\<lparr>users = [], referrals = [?r1, ?r2]\<rparr>"
  have no: "\<not> (\<exists>r\<in>set (referrals ?db). user_tg_id r = ''111'')" by simp
  have p: "points_100 ?db" by (simp add: points_100_def)
  have first: "create_referral False 10 ?db ''111'' ''222'' = (?db1, Inr ?r1)"
    by (simp add: create_referral_def add_commit_Referral_def next_id_def Let_def)
  have second: "create_referral False 20 ?db1 ''111'' ''333'' = (?db2, Inr ?r2)"
    by (simp add: create_referral_def add_commit_Referral_def next_id_def Let_def)
  from get_total_points_sum [of ?db "''111''" "''111''" False 10 "''222''" ?db1 ?r1 20 "''333''"
      ?db2 ?r2] no p first second
  show ?thesis by simp
qed

section \<open>C7: friends\<close>

lemma get_user_friends_filter_mset:
  "get_user_friends db t =
     filter_mset (\<lambda>x. \<exists>r\<in>set (referrals db). user_tg_id r = t \<and> friend_tg_id r = tg_id x)
       (mset (users db))"
proof -
  have named: "(tg_id x \<in> friend_tg_id ` {r \<in> set (referrals db). user_tg_id r = t}) =
        (\<exists>r\<in>set (referrals db). user_tg_id r = t \<and> friend_tg_id r = tg_id x)" for x
    by (force simp: image_iff)
  show ?thesis
    by (simp add: get_user_friends_def Let_def named)
qed

text \<open>
  Claim C7. The rows \<open>get_user_friends\<close> returns are exactly the \<open>User\<close> rows
  whose \<open>tg_id\<close> is the \<open>friend_tg_id\<close> of some \<open>Referral\<close> row with the given
  \<open>user_tg_id\<close>, each as often as the user table holds it and in no particular
  order. Starting from empty tables, after creating three users with different ids
  \<open>a\<close>, \<open>b\<close>, \<open>c\<close> and the referrals from \<open>a\<close> to \<open>b\<close> and from \<open>a\<close> to
  \<open>c\<close>, the friends of \<open>a\<close> are the row of \<open>b\<close> and the row of \<open>c\<close>.
\<close>

theorem get_user_friends_rows:
  "get_user_friends db t =
     filter_mset (\<lambda>x. \<exists>r\<in>set (referrals db). user_tg_id r = t \<and> friend_tg_id r = tg_id x)
       (mset (users db)) \<and>
   set_mset (get_user_friends db t) =
     {x \<in> set (users db).
        \<exists>r\<in>set (referrals db). user_tg_id r = t \<and> friend_tg_id r = tg_id x} \<and>
   (a \<noteq> b \<and> a \<noteq> c \<and> b \<noteq> c \<longrightarrow>
      get_user_friends
        (run fk create_all
           [(n1, POST_users a na), (n2, POST_users b nb), (n3, POST_users c nc),
            (n4, POST_referrals a b), (n5, POST_referrals a c)]) a =
        {#\<lparr>id_User = 2, tg_id = b, username = nb,
            ref_link = ''https://t.me/tma123_bot?startapp='' @ b\<rparr>,
          \<lparr>id_User = 3, tg_id = c, username = nc,
            ref_link = ''https://t.me/tma123_bot?startapp='' @ c\<rparr>#})"
proof -
  have rows: "set_mset (get_user_friends db t) =
     {x \<in> set (users db).
        \<exists>r\<in>set (referrals db). user_tg_id r = t \<and> friend_tg_id r = tg_id x}"
    unfolding get_user_friends_filter_mset by auto
  have scenario: "get_user_friends
        (run fk create_all
           [(n1, POST_users a na), (n2, POST_users b nb), (n3, POST_users c nc),
            (n4, POST_referrals a b), (n5, POST_referrals a c)]) a =
        {#\<lparr>id_User = 2, tg_id = b, username = nb,
            ref_link = ''https://t.me/tma123_bot?startapp='' @ b\<rparr>,
          \<lparr>id_User = 3, tg_id = c, username = nc,
            ref_link = ''https://t.me/tma123_bot?startapp='' @ c\<rparr>#}"
    if ne: "a \<noteq> b" "a \<noteq> c" "b \<noteq> c"
  proof -
    let ?ua = "\<lparr>id_User = 1, tg_id = a, username = na,
           ref_link = ''https://t.me/tma123_bot?startapp='' @ a\<rparr>"
    let ?ub = "\<lparr>id_User = 2, tg_id = b, username = nb,
           ref_link = ''https://t.me/tma123_bot?startapp='' @ b\<rparr>"
    let ?uc = "\<lparr>id_User = 3, tg_id = c, username = nc,
           ref_link = ''https://t.me/tma123_bot?startapp='' @ c\<rparr>"
    let ?r1 = "\<lparr>id_Referral = 1, date = n4, user_tg_id = a, friend_tg_id = b, points = 100\<rparr>"
    let ?r2 = "\<lparr>id_Referral = 2, date = n5, user_tg_id = a, friend_tg_id = c, points = 100\<rparr>"
    have s1: "fst (app fk n1 create_all (POST_users a na)) = \<lparr>users = [?ua], referrals = []\<rparr>"
      by (simp add: create_user_def get_or_create_user_def add_commit_User_def create_all_def
          next_id_def Let_def)
    have s2: "fst (app fk n2 \<lparr>users = [?ua], referrals = []\<rparr> (POST_users b nb)) =
        \<lparr>users = [?ua, ?ub], referrals = []\<rparr>"
      using ne by (simp add: create_user_def get_or_create_user_def add_commit_User_def
          next_id_def Let_def)
    have s3: "fst (app fk n3 \<lparr>users = [?ua, ?ub], referrals = []\<rparr> (POST_users c nc)) =
        \<lparr>users = [?ua, ?ub, ?uc], referrals = []\<rparr>"
      using ne by (simp add: create_user_def get_or_create_user_def add_commit_User_def
          next_id_def Let_def)
    have s4: "fst (app fk n4 \<lparr>users = [?ua, ?ub, ?uc], referrals = []\<rparr> (POST_referrals a b)) =
        \<lparr>users = [?ua, ?ub, ?uc], referrals = [?r1]\<rparr>"
      by (simp add: create_referral_def add_commit_Referral_def next_id_def Let_def)
    have s5: "fst (app fk n5 \<lparr>users = [?ua, ?ub, ?uc], referrals = [?r1]\<rparr> (POST_referrals a c)) =
        \<lparr>users = [?ua, ?ub, ?uc], referrals = [?r1, ?r2]\<rparr>"
      using ne by (simp add: create_referral_def add_commit_Referral_def next_id_def Let_def)
    have final: "run fk create_all
           [(n1, POST_users a na), (n2, POST_users b nb), (n3, POST_users c nc),
            (n4, POST_referrals a b), (n5, POST_referrals a c)] =
        \<lparr>users = [?ua, ?ub, ?uc], referrals = [?r1, ?r2]\<rparr>"
      by (simp only: run.simps s1 s2 s3 s4 s5)
    show ?thesis
      unfolding final using ne by (simp add: get_user_friends_def Let_def)
  qed
  from get_user_friends_filter_mset [of db t] rows scenario show ?thesis by blast
qed

text \<open>
  The theorem at the users 333, 222 and 111, created in this order on a store that
  checks foreign keys: the friends of 333 are the rows of 222 and 111, whichever the
  store returns first.
\<close>

theorem get_user_friends_rows_witness:
  "''333'' \<noteq> ''222'' \<and> ''333'' \<noteq> ''111'' \<and> ''222'' \<noteq> ''111'' \<and>
   get_user_friends
     (run True create_all
        [(1, POST_users ''333'' ''carol''), (2, POST_users ''222'' ''bob''),
         (3, POST_users ''111'' ''alice''), (4, POST_referrals ''333'' ''222''),
         (5, POST_referrals ''333'' ''111'')]) ''333'' =
     {#\<lparr>id_User = 3, tg_id = ''111'', username = ''alice'',
         ref_link = ''https://t.me/tma123_bot?startapp=111''\<rparr>, bob#}"
  using get_user_friends_rows [of create_all "''333''" "''333''" "''222''" "''111''" True
      1 "''carol''" 2 "''bob''" 3 "''alice''" 4 5]
  by (simp add: bob_def add_mset_commute)

section \<open>C8: duplicate referral rows and friends\<close>

lemma distinct_count_list_le: "distinct xs \<Longrightarrow> count_list xs x \<le> 1"
  by (induction xs) (auto simp: count_list_0_iff)

text \<open>
  Claim C8 as stated fails: with two \<open>Referral\<close> rows for the same pair (111, 222)
  and the user row of 222, \<open>get_user_friends\<close> returns that row once.
\<close>

theorem get_user_friends_one_row_example:
  "get_user_friends
     \<lparr>users = [alice, bob],
       referrals = [\<lparr>id_Referral = 1, date = 10, user_tg_id = ''111'',
                     friend_tg_id = ''222'', points = 100\<rparr>,
                    \<lparr>id_Referral = 2, date = 20, user_tg_id = ''111'',
                     friend_tg_id = ''222'', points = 100\<rparr>]\<rparr> ''111'' = {#bob#} \<and>
   \<not> 1 < count
     (get_user_friends
       \<lparr>users = [alice, bob],
         referrals = [\<lparr>id_Referral = 1, date = 10, user_tg_id = ''111'',
                       friend_tg_id = ''222'', points = 100\<rparr>,
                      \<lparr>id_Referral = 2, date = 20, user_tg_id = ''111'',
                       friend_tg_id = ''222'', points = 100\<rparr>]\<rparr> ''111'') bob"
  by (simp add: get_user_friends_def Let_def alice_def bob_def)

text \<open>
  Claim C8, amended. The friends are selected from the user table by whether their
  \<open>tg_id\<close> is among the collected friend ids, so a row is returned at most as often
  as the user table holds it, however many \<open>Referral\<close> rows name it: with the primary
  key of the user table, no row is returned twice. The keys are distinct in every state
  reached from the empty tables.
\<close>

theorem get_user_friends_no_duplicates:
  "get_user_friends db t \<subseteq># mset (users db) \<and>
   count (get_user_friends db t) x \<le> count_list (users db) x \<and>
   (primary_keys db \<longrightarrow> count (get_user_friends db t) x \<le> 1) \<and>
   primary_keys (run fk create_all qs)"
proof -
  have sub: "get_user_friends db t \<subseteq># mset (users db)"
    unfolding get_user_friends_filter_mset by (rule multiset_filter_subset)
  then have "count (get_user_friends db t) x \<le> count (mset (users db)) x"
    by (rule mset_subset_eq_count)
  then have le: "count (get_user_friends db t) x \<le> count_list (users db) x"
    by (simp add: count_mset)
  have once: "count (get_user_friends db t) x \<le> 1" if "primary_keys db"
  proof -
    from that have "distinct (map id_User (users db))" by (simp add: primary_keys_def)
    then have "distinct (users db)" by (simp add: distinct_map)
    then have "count_list (users db) x \<le> 1" by (rule distinct_count_list_le)
    with le show ?thesis by simp
  qed
  have reach: "primary_keys (run fk create_all qs)"
    by (rule run_primary_keys) (rule create_all_properties)
  from sub le once reach show ?thesis by blast
qed

text \<open>The theorem at the state with the duplicated referral row.\<close>

theorem get_user_friends_no_duplicates_witness:
  "primary_keys
     \<lparr>users = [alice, bob],
       referrals = [\<lparr>id_Referral = 1, date = 10, user_tg_id = ''111'',
                     friend_tg_id = ''222'', points = 100\<rparr>,
                    \<lparr>id_Referral = 2, date = 20, user_tg_id = ''111'',
                     friend_tg_id = ''222'', points = 100\<rparr>]\<rparr> \<and>
   count (get_user_friends
     \<lparr>users = [alice, bob],
       referrals = [\<lparr>id_Referral = 1, date = 10, user_tg_id = ''111'',
                     friend_tg_id = ''222'', points = 100\<rparr>,
                    \<lparr>id_Referral = 2, date = 20, user_tg_id = ''111'',
                     friend_tg_id = ''222'', points = 100\<rparr>]\<rparr> ''111'') bob \<le> 1"
proof -
  let ?db = "\<lparr>users = [alice, bob],
       referrals = [\<lparr>id_Referral = 1, date = 10, user_tg_id = ''111'',
                     friend_tg_id = ''222'', points = 100\<rparr>,
                    \<lparr>id_Referral = 2, date = 20, user_tg_id = ''111'',
                     friend_tg_id = ''222'', points = 100\<rparr>]\<rparr>"
  have keys: "primary_keys ?db" by (simp add: primary_keys_def alice_def bob_def)
  from get_user_friends_no_duplicates [of ?db "''111''" bob] keys
  have "count (get_user_friends ?db ''111'') bob \<le> 1"
    by blast
  with keys show ?thesis by blast
qed

section \<open>C9: rows are written once\<close>

text \<open>
  Claim C9. The four reading routes leave the state as it is. \<open>create_user\<close> for a
  \<open>tg_id\<close> that has a row returns a stored row and leaves the state as it is;
  in any case it changes nothing or appends one user row. \<open>create_referral\<close> changes
  nothing or appends one referral row. Over any sequence of requests both tables only
  grow at the end: every row stays where it was, with the content it had.
\<close>

theorem write_once:
  "fst (app fk now db (GET_users t)) = db \<and>
   fst (app fk now db (GET_users_friends t)) = db \<and>
   fst (app fk now db (GET_users_referral_link t)) = db \<and>
   fst (app fk now db (GET_users_total_points t)) = db \<and>
   ((\<exists>x\<in>set (users db). tg_id x = t) \<longrightarrow>
      (\<exists>y\<in>set (users db). tg_id y = t \<and> create_user db t n = (db, Inr y))) \<and>
   (fst (create_user db t n) = db \<or>
      (\<exists>v. fst (create_user db t n) = db\<lparr>users := users db @ [v]\<rparr>)) \<and>
   (fst (create_referral fk now db u f) = db \<or>
      (\<exists>r. fst (create_referral fk now db u f) = db\<lparr>referrals := referrals db @ [r]\<rparr>)) \<and>
   prefix (users db) (users (run fk db qs)) \<and>
   prefix (referrals db) (referrals (run fk db qs))"
proof -
  have reads: "fst (app fk now db (GET_users t)) = db"
    "fst (app fk now db (GET_users_friends t)) = db"
    "fst (app fk now db (GET_users_referral_link t)) = db"
    "fst (app fk now db (GET_users_total_points t)) = db"
    by simp_all
  have existing: "\<exists>y\<in>set (users db). tg_id y = t \<and> create_user db t n = (db, Inr y)"
    if "\<exists>x\<in>set (users db). tg_id x = t"
  proof (cases "find (\<lambda>x. tg_id x = t) (users db)")
    case None
    with that show ?thesis by (simp add: find_None_mem)
  next
    case (Some y)
    from find_Some_mem [OF Some] get_or_create_user_found [OF Some, of n]
    show ?thesis by (auto simp: create_user_def)
  qed
  have users_grow: "fst (create_user db t n) = db \<or>
      (\<exists>v. fst (create_user db t n) = db\<lparr>users := users db @ [v]\<rparr>)"
    using get_or_create_user_state [of db t n] by (auto simp: create_user_def)
  have referrals_grow: "fst (create_referral fk now db u f) = db \<or>
      (\<exists>r. fst (create_referral fk now db u f) = db\<lparr>referrals := referrals db @ [r]\<rparr>)"
    using create_referral_state [of fk now db u f] by auto
  from reads existing users_grow referrals_grow run_frame [of db fk qs]
  show ?thesis by blast
qed

text \<open>The theorem at a repeated \<open>create_user\<close> with another username: the stored name stays.\<close>

theorem write_once_witness:
  "alice \<in> set (users \<lparr>users = [alice], referrals = []\<rparr>) \<and> tg_id alice = ''111'' \<and>
   create_user \<lparr>users = [alice], referrals = []\<rparr> ''111'' ''eve'' =
     (\<lparr>users = [alice], referrals = []\<rparr>, Inr alice) \<and>
   username alice = ''alice''"
proof -
  let ?db = "\<lparr>users = [alice], referrals = []\<rparr>"
  have ex: "\<exists>x\<in>set (users ?db). tg_id x = ''111''" by (simp add: alice_def)
  from write_once [of _ _ ?db "''111''" "''eve''"] ex show ?thesis
    by (simp add: alice_def)
qed

end
